theory Spec2Isabelle
  imports Complex_Main "HOL-Library.Option_ord"
begin

section \<open>Values of the store: numbers, NULL, three-valued logic\<close>

text \<open>
  The analyzer of \<^verbatim>\<open>scripts/revenue_analyzer.py\<close> is a sequence of SQL queries, sent to a
  PostgreSQL store through \<^verbatim>\<open>execute_query\<close>, and a report composed from their results.
  The queries are part of the source, so they are embedded here by their SQL meaning over a
  snapshot of the four tables.

  Amounts are exact decimals (\<^verbatim>\<open>NUMERIC\<close>), modelled as rationals; the quotient of two of
  them is taken exactly (the store keeps at least sixteen significant digits of it).
  A nullable column is an \<open>option\<close>, with \<open>None\<close> for NULL. Keys, status, names and the
  submission, denial and encounter dates are taken as \<^verbatim>\<open>NOT NULL\<close>; everything the
  queries guard with \<^verbatim>\<open>COALESCE\<close>, \<^verbatim>\<open>IS NOT NULL\<close> or \<^verbatim>\<open>NULLIF\<close>, every other
  amount and every flag is nullable.
\<close>

datatype error = ConnectionFailed | QueryFailed | DivisionByZero | FormatTypeError

definition e_bind :: "error + 'a \<Rightarrow> ('a \<Rightarrow> error + 'b) \<Rightarrow> error + 'b" where
  "e_bind r f = (case r of Inl e \<Rightarrow> Inl e | Inr v \<Rightarrow> f v)"

type_synonym sql_bool = "bool option"

fun sql_not :: "sql_bool \<Rightarrow> sql_bool" where
  "sql_not None = None"
| "sql_not (Some b) = Some (\<not> b)"

fun sql_and :: "sql_bool \<Rightarrow> sql_bool \<Rightarrow> sql_bool" where
  "sql_and (Some False) b = Some False"
| "sql_and a (Some False) = Some False"
| "sql_and (Some True) (Some True) = Some True"
| "sql_and a b = None"

definition is_true :: "sql_bool \<Rightarrow> bool" where
  \<comment> \<open>\<^verbatim>\<open>WHERE\<close>, \<^verbatim>\<open>HAVING\<close> and \<^verbatim>\<open>CASE WHEN\<close> take a row only when the condition is true.\<close>
  "is_true b \<longleftrightarrow> b = Some True"

definition sql_eq :: "'a option \<Rightarrow> 'a option \<Rightarrow> sql_bool" where
  "sql_eq a b = (case (a, b) of (Some x, Some y) \<Rightarrow> Some (x = y) | _ \<Rightarrow> None)"

definition sql_ge :: "rat option \<Rightarrow> rat option \<Rightarrow> sql_bool" where
  "sql_ge a b = (case (a, b) of (Some x, Some y) \<Rightarrow> Some (y \<le> x) | _ \<Rightarrow> None)"

definition sql_le :: "rat option \<Rightarrow> rat option \<Rightarrow> sql_bool" where
  "sql_le a b = (case (a, b) of (Some x, Some y) \<Rightarrow> Some (x \<le> y) | _ \<Rightarrow> None)"

definition sql_gt :: "rat option \<Rightarrow> rat option \<Rightarrow> sql_bool" where
  "sql_gt a b = (case (a, b) of (Some x, Some y) \<Rightarrow> Some (y < x) | _ \<Rightarrow> None)"

definition sql_sub :: "rat option \<Rightarrow> rat option \<Rightarrow> rat option" where
  "sql_sub a b = (case (a, b) of (Some x, Some y) \<Rightarrow> Some (x - y) | _ \<Rightarrow> None)"

definition sql_mul :: "rat option \<Rightarrow> rat option \<Rightarrow> rat option" where
  "sql_mul a b = (case (a, b) of (Some x, Some y) \<Rightarrow> Some (x * y) | _ \<Rightarrow> None)"

definition sql_abs :: "rat option \<Rightarrow> rat option" where
  "sql_abs a = map_option abs a"

definition sql_div :: "rat option \<Rightarrow> rat option \<Rightarrow> error + rat option" where
  \<comment> \<open>The operator is strict: a NULL operand gives NULL before the divisor is looked at.
      A zero divisor under a number raises \<^verbatim>\<open>division by zero\<close>.\<close>
  "sql_div a b =
     (case (a, b) of
        (Some x, Some y) \<Rightarrow> if y = 0 then Inl DivisionByZero else Inr (Some (x / y))
      | _ \<Rightarrow> Inr None)"

definition nullif :: "rat option \<Rightarrow> rat \<Rightarrow> rat option" where
  "nullif a v = (if a = Some v then None else a)"

definition coalesce :: "rat option \<Rightarrow> rat \<Rightarrow> rat" where
  "coalesce a v = (case a of None \<Rightarrow> v | Some x \<Rightarrow> x)"

definition round_half_away :: "nat \<Rightarrow> rat \<Rightarrow> rat" where
  \<comment> \<open>\<^verbatim>\<open>ROUND(x, n)\<close> on \<^verbatim>\<open>NUMERIC\<close>: to n decimals, ties away from zero.\<close>
  "round_half_away n x =
     (if x < 0 then - (of_int \<lfloor>- x * 10 ^ n + 1 / 2\<rfloor> / 10 ^ n)
      else of_int \<lfloor>x * 10 ^ n + 1 / 2\<rfloor> / 10 ^ n)"

definition sql_round :: "rat option \<Rightarrow> nat \<Rightarrow> rat option" where
  "sql_round a n = map_option (round_half_away n) a"

definition pct :: "rat option \<Rightarrow> rat option \<Rightarrow> error + rat option" where
  \<comment> \<open>The pattern \<^verbatim>\<open>ROUND((a / NULLIF(b, 0)) * 100, 2)\<close> of every rate column.\<close>
  "pct a b = e_bind (sql_div a (nullif b 0)) (\<lambda>q. Inr (sql_round (sql_mul q (Some 100)) 2))"

subsection \<open>Aggregates\<close>

fun non_null :: "'a option list \<Rightarrow> 'a list" where
  "non_null [] = []"
| "non_null (None # xs) = non_null xs"
| "non_null (Some x # xs) = x # non_null xs"

definition sql_count :: "'a option list \<Rightarrow> int" where
  "sql_count xs = int (length (non_null xs))"

definition sql_count_distinct :: "'a option list \<Rightarrow> int" where
  "sql_count_distinct xs = int (length (remdups (non_null xs)))"

definition sql_sum :: "rat option list \<Rightarrow> rat option" where
  "sql_sum xs = (if non_null xs = [] then None else Some (sum_list (non_null xs)))"

definition sql_avg :: "rat option list \<Rightarrow> rat option" where
  "sql_avg xs =
     (if non_null xs = [] then None
      else Some (sum_list (non_null xs) / of_nat (length (non_null xs))))"

definition case_when :: "sql_bool \<Rightarrow> 'a option \<Rightarrow> 'a option" where
  \<comment> \<open>\<^verbatim>\<open>CASE WHEN c THEN v END\<close>: NULL when the condition is not true.\<close>
  "case_when c v = (if is_true c then v else None)"

subsection \<open>Dates\<close>

text \<open>
  A \<^verbatim>\<open>DATE\<close> is a day of the proleptic Gregorian calendar. The difference of two dates
  is a number of days; \<^verbatim>\<open>d - INTERVAL 'n months'\<close> moves the month and clamps the day to
  the end of the month reached.
\<close>

datatype date = Date (date_year: int) (date_month: int) (date_day: int)

definition day_number :: "date \<Rightarrow> int" where
  "day_number d =
     (let y = (if date_month d \<le> 2 then date_year d - 1 else date_year d);
          era = y div 400;
          yoe = y - era * 400;
          mp = (if date_month d > 2 then date_month d - 3 else date_month d + 9);
          doy = (153 * mp + 2) div 5 + date_day d - 1;
          doe = yoe * 365 + yoe div 4 - yoe div 100 + doy
      in era * 146097 + doe - 719468)"

definition date_diff :: "date \<Rightarrow> date \<Rightarrow> int" where
  "date_diff a b = day_number a - day_number b"

definition date_le :: "date \<Rightarrow> date \<Rightarrow> bool" where
  "date_le a b \<longleftrightarrow> day_number a \<le> day_number b"

definition is_leap :: "int \<Rightarrow> bool" where
  "is_leap y \<longleftrightarrow> y mod 4 = 0 \<and> (y mod 100 \<noteq> 0 \<or> y mod 400 = 0)"

definition days_in_month :: "int \<Rightarrow> int \<Rightarrow> int" where
  "days_in_month y m =
     (if m = 2 then (if is_leap y then 29 else 28)
      else if m = 4 \<or> m = 6 \<or> m = 9 \<or> m = 11 then 30 else 31)"

definition minus_months :: "date \<Rightarrow> int \<Rightarrow> date" where
  "minus_months d n =
     (let t = date_year d * 12 + (date_month d - 1) - n;
          y = t div 12;
          m = t mod 12 + 1
      in Date y m (min (date_day d) (days_in_month y m)))"

definition on_or_after_days_ago :: "date \<Rightarrow> date \<Rightarrow> int \<Rightarrow> bool" where
  \<comment> \<open>\<^verbatim>\<open>d >= CURRENT_DATE - INTERVAL 'n days'\<close>\<close>
  "on_or_after_days_ago d today n \<longleftrightarrow> day_number today - n \<le> day_number d"

section \<open>The tables\<close>

record claim =
  c_claim_id :: int
  c_patient_id :: int
  c_payer_id :: int
  c_status :: string
  c_charge_amount :: "rat option"
  c_allowed_amount :: "rat option"
  c_paid_amount :: "rat option"
  c_adjustment_amount :: "rat option"
  c_patient_responsibility :: "rat option"
  c_submission_date :: date
  c_payment_date :: "date option"

record denial =
  d_denial_id :: int
  d_claim_id :: int
  d_denial_category :: string
  d_denial_reason_code :: string
  d_denial_reason_description :: string
  d_denied_amount :: "rat option"
  d_work_status :: "string option"
  d_resolution_type :: "string option"
  d_recovered_amount :: "rat option"
  d_preventable :: "bool option"
  d_denial_date :: date

record payer =
  p_payer_id :: int
  p_payer_name :: string
  p_payer_type :: string

record encounter =
  e_encounter_id :: int
  e_patient_id :: int
  e_provider_id :: int
  e_encounter_date :: date
  e_expected_charge :: "rat option"
  e_documentation_complete :: "bool option"
  e_coding_complete :: "bool option"
  e_charge_entered :: "bool option"
  e_claim_generated :: "bool option"

record database =
  claims :: "claim list"
  denials :: "denial list"
  payers :: "payer list"
  encounters :: "encounter list"

section \<open>The analyzer and its connection\<close>

text \<open>
  The analyzer object holds the connection handle. What it reads from outside is kept in
  the same record: the snapshot of the store, the store's \<^verbatim>\<open>CURRENT_DATE\<close>, the reading
  of the client's clock (\<^verbatim>\<open>datetime.now()\<close>), whether the store accepts a connection, and for each coming query whether the store fails it
  (a lost connection, a timeout). Log lines are not modelled.
\<close>

datatype conn_state = NoConnection | ConnOpen | ConnClosed

datatype datetime = DateTime (dt_date: date) (dt_hour: int) (dt_minute: int) (dt_second: int)

record analyzer =
  store :: database
  current_date :: date
  clock :: datetime
  connect_ok :: bool
  faults :: "bool list"
  connection :: conn_state

definition connect :: "analyzer \<Rightarrow> (error + unit) \<times> analyzer" where
  "connect a =
     (if connect_ok a then (Inr (), a\<lparr>connection := ConnOpen\<rparr>)
      else (Inl ConnectionFailed, a))"

definition disconnect :: "analyzer \<Rightarrow> analyzer" where
  \<comment> \<open>\<^verbatim>\<open>if self.connection: self.connection.close()\<close>: a handle, open or closed, is truthy.\<close>
  "disconnect a =
     (if connection a \<noteq> NoConnection then a\<lparr>connection := ConnClosed\<rparr> else a)"

definition execute_query ::
  "(database \<Rightarrow> date \<Rightarrow> error + 'r list) \<Rightarrow> analyzer \<Rightarrow> (error + 'r list) \<times> analyzer" where
  "execute_query q a =
     (if connection a \<noteq> ConnOpen then (Inl QueryFailed, a)
      else case faults a of
             [] \<Rightarrow> (q (store a) (current_date a), a)
           | f # fs \<Rightarrow>
               if f then (Inl QueryFailed, a\<lparr>faults := fs\<rparr>)
               else (q (store a) (current_date a), a\<lparr>faults := fs\<rparr>))"

section \<open>calculate\_revenue\_metrics\<close>

record metric_snapshot =
  m_total_claims :: int
  m_paid_claims :: int
  m_denied_claims :: int
  m_total_charges :: "rat option"
  m_total_allowed :: "rat option"
  m_total_payments :: "rat option"
  m_total_adjustments :: "rat option"
  m_avg_days_to_payment :: "rat option"
  m_total_ar :: "rat option"
  m_ar_over_90 :: "rat option"
  m_clean_claim_rate :: "rat option"
  m_denial_rate :: "rat option"
  m_net_collection_rate :: "rat option"
  m_gross_collection_rate :: "rat option"
  m_ar_over_90_pct :: "rat option"
  m_days_in_ar :: "rat option"

definition in_window :: "date \<Rightarrow> date \<Rightarrow> claim \<Rightarrow> bool" where
  \<comment> \<open>\<^verbatim>\<open>submission_date BETWEEN %s AND %s\<close>\<close>
  "in_window start_date end_date c \<longleftrightarrow>
     date_le start_date (c_submission_date c) \<and> date_le (c_submission_date c) end_date"

definition open_claim :: "claim \<Rightarrow> bool" where
  \<comment> \<open>\<^verbatim>\<open>status NOT IN ('PAID', 'WRITTEN_OFF')\<close>\<close>
  "open_claim c \<longleftrightarrow> c_status c \<noteq> ''PAID'' \<and> c_status c \<noteq> ''WRITTEN_OFF''"

definition outstanding :: "claim \<Rightarrow> rat option" where
  \<comment> \<open>\<^verbatim>\<open>charge_amount - COALESCE(paid_amount, 0)\<close>\<close>
  "outstanding c = sql_sub (c_charge_amount c) (Some (coalesce (c_paid_amount c) 0))"

definition days_to_payment :: "claim \<Rightarrow> rat option" where
  \<comment> \<open>\<^verbatim>\<open>CASE WHEN payment_date IS NOT NULL THEN payment_date - submission_date END\<close>\<close>
  "days_to_payment c =
     (case c_payment_date c of
        None \<Rightarrow> None
      | Some p \<Rightarrow> Some (of_int (date_diff p (c_submission_date c))))"

definition revenue_metrics_query ::
  "date \<Rightarrow> date \<Rightarrow> database \<Rightarrow> date \<Rightarrow> error + metric_snapshot list" where
  "revenue_metrics_query start_date end_date db today =
     (let cs = filter (in_window start_date end_date) (claims db);
          total_claims = sql_count_distinct (map (\<lambda>c. Some (c_claim_id c)) cs);
          paid_claims = sql_count_distinct
            (map (\<lambda>c. case_when (Some (c_status c = ''PAID'')) (Some (c_claim_id c))) cs);
          denied_claims = sql_count_distinct
            (map (\<lambda>c. case_when (Some (c_status c = ''DENIED'')) (Some (c_claim_id c))) cs);
          total_charges = sql_sum (map c_charge_amount cs);
          total_allowed = sql_sum (map c_allowed_amount cs);
          total_payments = sql_sum (map c_paid_amount cs);
          total_adjustments = sql_sum (map c_adjustment_amount cs);
          avg_days_to_payment = sql_avg (map days_to_payment cs);
          ar = filter open_claim (claims db);
          total_ar = sql_sum (map outstanding ar);
          ar_over_90 = sql_sum
            (map (\<lambda>c. if date_diff today (c_submission_date c) > 90 then outstanding c
                       else Some 0) ar)
      in e_bind (pct (Some (of_int paid_claims)) (Some (of_int total_claims))) (\<lambda>clean_claim_rate.
         e_bind (pct (Some (of_int denied_claims)) (Some (of_int total_claims))) (\<lambda>denial_rate.
         e_bind (pct total_payments total_allowed) (\<lambda>net_collection_rate.
         e_bind (pct total_payments total_charges) (\<lambda>gross_collection_rate.
         e_bind (pct ar_over_90 total_ar) (\<lambda>ar_over_90_pct.
         e_bind (sql_div (sql_mul total_payments (Some 365))
                         (Some (of_int (date_diff end_date start_date)))) (\<lambda>per_year.
         e_bind (sql_div total_ar per_year) (\<lambda>q.
         Inr [\<lparr>m_total_claims = total_claims,
               m_paid_claims = paid_claims,
               m_denied_claims = denied_claims,
               m_total_charges = total_charges,
               m_total_allowed = total_allowed,
               m_total_payments = total_payments,
               m_total_adjustments = total_adjustments,
               m_avg_days_to_payment = avg_days_to_payment,
               m_total_ar = total_ar,
               m_ar_over_90 = ar_over_90,
               m_clean_claim_rate = clean_claim_rate,
               m_denial_rate = denial_rate,
               m_net_collection_rate = net_collection_rate,
               m_gross_collection_rate = gross_collection_rate,
               m_ar_over_90_pct = ar_over_90_pct,
               m_days_in_ar = sql_round q 2\<rparr>]))))))))"

definition calculate_revenue_metrics ::
  "date \<Rightarrow> date \<Rightarrow> analyzer \<Rightarrow> (error + metric_snapshot option) \<times> analyzer" where
  \<comment> \<open>The returned dictionary is the first row of the result, keyed by column; the empty
      dictionary \<^verbatim>\<open>{}\<close> is \<open>None\<close>.\<close>
  "calculate_revenue_metrics start_date end_date a =
     (case execute_query (revenue_metrics_query start_date end_date) a of
        (Inl e, a') \<Rightarrow> (Inl e, a')
      | (Inr rows, a') \<Rightarrow>
          (case rows of [] \<Rightarrow> (Inr None, a') | r # rest \<Rightarrow> (Inr (Some r), a')))"


section \<open>analyze\_denial\_patterns\<close>

record denial_pattern =
  dp_denial_category :: string
  dp_denial_reason_code :: string
  dp_denial_reason_description :: string
  dp_denial_count :: int
  dp_total_denied :: "rat option"
  dp_avg_denied :: "rat option"
  dp_resolved :: int
  dp_appeals_won :: int
  dp_amount_recovered :: "rat option"
  dp_appeal_success_rate :: "rat option"
  dp_preventable_count :: int
  dp_preventable_pct :: "rat option"
  dp_top_payers :: string

fun e_map :: "('a \<Rightarrow> error + 'b) \<Rightarrow> 'a list \<Rightarrow> error + 'b list" where
  "e_map f [] = Inr []"
| "e_map f (x # xs) = e_bind (f x) (\<lambda>y. e_bind (e_map f xs) (\<lambda>ys. Inr (y # ys)))"

fun join_with :: "string \<Rightarrow> string list \<Rightarrow> string" where
  "join_with sep [] = []"
| "join_with sep [x] = x"
| "join_with sep (x # y # ys) = x @ sep @ join_with sep (y # ys)"

definition denial_join :: "database \<Rightarrow> (denial \<times> claim \<times> payer) list" where
  \<comment> \<open>\<^verbatim>\<open>FROM denials d JOIN claims c ON d.claim_id = c.claim_id
      JOIN payers p ON c.payer_id = p.payer_id\<close>\<close>
  "denial_join db =
     concat (map (\<lambda>d.
       concat (map (\<lambda>c.
         map (\<lambda>p. (d, c, p)) (filter (\<lambda>p. c_payer_id c = p_payer_id p) (payers db)))
         (filter (\<lambda>c. d_claim_id d = c_claim_id c) (claims db))))
       (denials db))"

definition pattern_key :: "denial \<times> claim \<times> payer \<Rightarrow> string \<times> string \<times> string" where
  "pattern_key j =
     (d_denial_category (fst j), d_denial_reason_code (fst j),
      d_denial_reason_description (fst j))"

definition like_appealed :: "string option \<Rightarrow> sql_bool" where
  \<comment> \<open>\<^verbatim>\<open>resolution_type LIKE 'APPEALED%'\<close> (the \<^verbatim>\<open>%%\<close> of the source is one \<^verbatim>\<open>%\<close>
      after Python's \<^verbatim>\<open>query % lookback_months\<close>)\<close>
  "like_appealed s = map_option (\<lambda>t. take 8 t = ''APPEALED'') s"

definition denial_pattern_row ::
  "(denial \<times> claim \<times> payer) list \<Rightarrow> string \<times> string \<times> string \<Rightarrow> error + denial_pattern" where
  "denial_pattern_row g k =
     (let ds = map fst g;
          won = sql_count (map (\<lambda>d.
                  case_when (sql_eq (d_resolution_type d) (Some ''APPEALED_WON'')) (Some (1::int))) ds);
          appealed = sql_count (map (\<lambda>d.
                  case_when (like_appealed (d_resolution_type d)) (Some (1::int))) ds);
          preventable = sql_count (map (\<lambda>d.
                  case_when (sql_eq (d_preventable d) (Some True)) (Some (1::int))) ds)
      in e_bind (pct (Some (of_int won)) (Some (of_int appealed))) (\<lambda>appeal_success_rate.
         e_bind (pct (Some (of_int preventable)) (Some (of_nat (length g)))) (\<lambda>preventable_pct.
         Inr \<lparr>dp_denial_category = fst k,
              dp_denial_reason_code = fst (snd k),
              dp_denial_reason_description = snd (snd k),
              dp_denial_count = sql_count_distinct (map (\<lambda>d. Some (d_denial_id d)) ds),
              dp_total_denied = sql_sum (map d_denied_amount ds),
              dp_avg_denied = sql_round (sql_avg (map d_denied_amount ds)) 2,
              dp_resolved = sql_count (map (\<lambda>d.
                  case_when (sql_eq (d_work_status d) (Some ''RESOLVED'')) (Some (1::int))) ds),
              dp_appeals_won = won,
              dp_amount_recovered = sql_sum (map (\<lambda>d.
                  if is_true (sql_eq (d_resolution_type d) (Some ''APPEALED_WON''))
                  then d_recovered_amount d else Some 0) ds),
              dp_appeal_success_rate = appeal_success_rate,
              dp_preventable_count = preventable,
              dp_preventable_pct = preventable_pct,
              dp_top_payers =
                join_with '', '' (remdups (map (\<lambda>j. p_payer_name (snd (snd j))) g))\<rparr>)))"

definition desc_key :: "rat option \<Rightarrow> rat option" where
  \<comment> \<open>The sort key of \<^verbatim>\<open>ORDER BY x DESC\<close>: NULLs first, then the larger value first.\<close>
  "desc_key x = map_option uminus x"

definition denial_patterns_query :: "int \<Rightarrow> database \<Rightarrow> date \<Rightarrow> error + denial_pattern list" where
  "denial_patterns_query lookback_months db today =
     (let js = filter (\<lambda>j. date_le (minus_months today lookback_months) (d_denial_date (fst j)))
                 (denial_join db);
          ks = remdups (map pattern_key js);
          groups = map (\<lambda>k. (filter (\<lambda>j. pattern_key j = k) js, k)) ks;
          kept = filter (\<lambda>gk. sql_count (map (\<lambda>j. Some (d_denial_id (fst j))) (fst gk)) \<ge> 5) groups
      in e_bind (e_map (\<lambda>gk. denial_pattern_row (fst gk) (snd gk)) kept) (\<lambda>rows.
         Inr (sort_key (\<lambda>r. desc_key (dp_total_denied r)) rows)))"

definition analyze_denial_patterns ::
  "int \<Rightarrow> analyzer \<Rightarrow> (error + denial_pattern list) \<times> analyzer" where
  "analyze_denial_patterns lookback_months a =
     execute_query (denial_patterns_query lookback_months) a"

section \<open>identify\_revenue\_leakage\<close>

record unbilled_row =
  ub_encounter_id :: int
  ub_patient_id :: int
  ub_provider_id :: int
  ub_encounter_date :: date
  ub_expected_charge :: "rat option"
  ub_days_unbilled :: int
  ub_bottleneck :: "string option"

record underpayment_row =
  up_claim_id :: int
  up_patient_id :: int
  up_payer_name :: string
  up_submission_date :: date
  up_allowed_amount :: "rat option"
  up_patient_responsibility :: "rat option"
  up_paid_amount :: "rat option"
  up_expected_payment :: "rat option"
  up_variance :: "rat option"
  up_variance_pct :: "rat option"

record old_ar_row =
  oa_claim_id :: int
  oa_patient_id :: int
  oa_payer_id :: int
  oa_submission_date :: date
  oa_outstanding :: "rat option"
  oa_days_outstanding :: int
  oa_status :: string

record leakage =
  unbilled_encounters :: "unbilled_row list"
  underpayments :: "underpayment_row list"
  old_ar :: "old_ar_row list"

definition bottleneck :: "encounter \<Rightarrow> string option" where
  \<comment> \<open>The \<^verbatim>\<open>CASE\<close> has no \<^verbatim>\<open>ELSE\<close>: NULL when no branch is true.\<close>
  "bottleneck e =
     (if is_true (sql_not (e_documentation_complete e)) then Some ''Missing Documentation''
      else if is_true (sql_not (e_coding_complete e)) then Some ''Coding Incomplete''
      else if is_true (sql_not (e_charge_entered e)) then Some ''Charges Not Entered''
      else if is_true (sql_not (e_claim_generated e)) then Some ''Claim Not Generated''
      else None)"

definition unbilled_where :: "date \<Rightarrow> encounter \<Rightarrow> bool" where
  "unbilled_where today e \<longleftrightarrow>
     is_true (sql_and (sql_and (Some (on_or_after_days_ago (e_encounter_date e) today 90))
                               (Some (day_number (e_encounter_date e) \<le> day_number today - 7)))
                      (sql_not (e_claim_generated e)))"

definition unbilled_select :: "date \<Rightarrow> encounter \<Rightarrow> unbilled_row" where
  "unbilled_select today e =
     \<lparr>ub_encounter_id = e_encounter_id e,
      ub_patient_id = e_patient_id e,
      ub_provider_id = e_provider_id e,
      ub_encounter_date = e_encounter_date e,
      ub_expected_charge = e_expected_charge e,
      ub_days_unbilled = date_diff today (e_encounter_date e),
      ub_bottleneck = bottleneck e\<rparr>"

definition unbilled_query :: "database \<Rightarrow> date \<Rightarrow> error + unbilled_row list" where
  "unbilled_query db today =
     Inr (sort_key (\<lambda>r. desc_key (ub_expected_charge r))
            (map (unbilled_select today) (filter (unbilled_where today) (encounters db))))"

definition payment_variance :: "database \<Rightarrow> date \<Rightarrow> underpayment_row list" where
  \<comment> \<open>The common table expression; \<open>up_variance_pct\<close> is filled by the outer \<^verbatim>\<open>SELECT\<close>.\<close>
  "payment_variance db today =
     concat (map (\<lambda>c.
       map (\<lambda>p.
          (let expected = sql_sub (c_allowed_amount c)
                            (Some (coalesce (c_patient_responsibility c) 0))
           in \<lparr>up_claim_id = c_claim_id c,
                up_patient_id = c_patient_id c,
                up_payer_name = p_payer_name p,
                up_submission_date = c_submission_date c,
                up_allowed_amount = c_allowed_amount c,
                up_patient_responsibility = c_patient_responsibility c,
                up_paid_amount = c_paid_amount c,
                up_expected_payment = expected,
                up_variance = sql_sub expected (c_paid_amount c),
                up_variance_pct = None\<rparr>))
         (filter (\<lambda>p. c_payer_id c = p_payer_id p) (payers db)))
       (filter (\<lambda>c. is_true
            (sql_and (sql_and (Some (c_status c = ''PAID''))
                        (map_option (\<lambda>pd. on_or_after_days_ago pd today 90) (c_payment_date c)))
                     (Some (c_allowed_amount c \<noteq> None))))
          (claims db)))"

definition underpayment_query :: "database \<Rightarrow> date \<Rightarrow> error + underpayment_row list" where
  "underpayment_query db today =
     e_bind (e_map (\<lambda>r. e_bind (pct (up_variance r) (up_expected_payment r)) (\<lambda>v.
                          Inr (r\<lparr>up_variance_pct := v\<rparr>)))
               (filter (\<lambda>r. is_true (sql_gt (sql_abs (up_variance r)) (Some 10)))
                  (payment_variance db today)))
       (\<lambda>rows. Inr (sort_key (\<lambda>r. desc_key (sql_abs (up_variance r))) rows))"

definition old_ar_query :: "database \<Rightarrow> date \<Rightarrow> error + old_ar_row list" where
  "old_ar_query db today =
     Inr (sort_key (\<lambda>r. desc_key (oa_outstanding r))
       (map (\<lambda>c. \<lparr>oa_claim_id = c_claim_id c,
                   oa_patient_id = c_patient_id c,
                   oa_payer_id = c_payer_id c,
                   oa_submission_date = c_submission_date c,
                   oa_outstanding = outstanding c,
                   oa_days_outstanding = date_diff today (c_submission_date c),
                   oa_status = c_status c\<rparr>)
          (filter (\<lambda>c. is_true
               (sql_and (sql_and (Some (open_claim c))
                           (Some (date_diff today (c_submission_date c) > 90)))
                        (sql_gt (outstanding c) (Some 0))))
             (claims db))))"

definition pd_sum :: "rat option list \<Rightarrow> rat" where
  \<comment> \<open>\<^verbatim>\<open>Series.sum()\<close>: missing values are skipped, the sum of nothing is 0.\<close>
  "pd_sum xs = sum_list (non_null xs)"

definition total_leakage :: "leakage \<Rightarrow> rat" where
  \<comment> \<open>The figure \<^verbatim>\<open>identify_revenue_leakage\<close> computes and logs, and the report prints
      under \<^verbatim>\<open>TOTAL LEAKAGE\<close>.\<close>
  "total_leakage l =
     pd_sum (map ub_expected_charge (unbilled_encounters l)) +
     pd_sum (map up_variance (underpayments l)) +
     pd_sum (map oa_outstanding (old_ar l))"

definition identify_revenue_leakage :: "analyzer \<Rightarrow> (error + leakage) \<times> analyzer" where
  "identify_revenue_leakage a =
     (case execute_query unbilled_query a of
        (Inl e, a1) \<Rightarrow> (Inl e, a1)
      | (Inr ub, a1) \<Rightarrow>
     (case execute_query underpayment_query a1 of
        (Inl e, a2) \<Rightarrow> (Inl e, a2)
      | (Inr up, a2) \<Rightarrow>
     (case execute_query old_ar_query a2 of
        (Inl e, a3) \<Rightarrow> (Inl e, a3)
      | (Inr oa, a3) \<Rightarrow>
          (Inr \<lparr>unbilled_encounters = ub, underpayments = up, old_ar = oa\<rparr>, a3))))"

section \<open>payer\_performance\_analysis\<close>

record payer_scorecard =
  ps_payer_name :: string
  ps_payer_type :: string
  ps_total_claims :: int
  ps_total_payments :: "rat option"
  ps_reimbursement_rate :: "rat option"
  ps_denial_rate :: "rat option"
  ps_clean_claim_rate :: "rat option"
  ps_avg_days_to_payment :: "rat option"
  ps_performance_rating :: string

definition performance_rating :: "rat option \<Rightarrow> rat option \<Rightarrow> rat option \<Rightarrow> string" where
  \<comment> \<open>The \<^verbatim>\<open>CASE\<close> of the outer \<^verbatim>\<open>SELECT\<close>. Its conditions repeat the expressions of the
      columns \<^verbatim>\<open>reimbursement_rate\<close> and \<^verbatim>\<open>denial_rate\<close>, passed here as their values.\<close>
  "performance_rating reimbursement_rate denial_rate avg_days =
     (if is_true (sql_and (sql_and (sql_ge reimbursement_rate (Some 95))
                                   (sql_le denial_rate (Some 5)))
                          (sql_le avg_days (Some 30)))
      then ''Excellent''
      else if is_true (sql_and (sql_ge reimbursement_rate (Some 85))
                               (sql_le denial_rate (Some 10)))
      then ''Good''
      else if is_true (sql_and (sql_ge reimbursement_rate (Some 75))
                               (sql_le denial_rate (Some 15)))
      then ''Fair''
      else ''Poor'')"

definition payer_row :: "database \<Rightarrow> payer \<Rightarrow> claim list \<Rightarrow> error + payer_scorecard" where
  \<comment> \<open>One group of \<^verbatim>\<open>payer_metrics\<close> and the outer \<^verbatim>\<open>SELECT\<close> over it.\<close>
  "payer_row db p cs =
     (let total_claims = sql_count_distinct (map (\<lambda>c. Some (c_claim_id c)) cs);
          total_allowed = sql_sum (map c_allowed_amount cs);
          total_payments = sql_sum (map c_paid_amount cs);
          denials_n = sql_count (map (\<lambda>c.
              case_when (Some (c_status c = ''DENIED'')) (Some (1::int))) cs);
          avg_days = sql_round (sql_avg (map days_to_payment cs)) 1;
          clean_claims = sql_count (map (\<lambda>c.
              case_when (sql_and (Some (c_status c = ''PAID''))
                                 (Some (c_claim_id c \<notin> set (map d_claim_id (denials db)))))
                        (Some (1::int))) cs)
      in e_bind (pct total_payments total_allowed) (\<lambda>reimbursement_rate.
         e_bind (pct (Some (of_int denials_n)) (Some (of_int total_claims))) (\<lambda>denial_rate.
         e_bind (pct (Some (of_int clean_claims)) (Some (of_int total_claims))) (\<lambda>clean_claim_rate.
         Inr \<lparr>ps_payer_name = p_payer_name p,
              ps_payer_type = p_payer_type p,
              ps_total_claims = total_claims,
              ps_total_payments = total_payments,
              ps_reimbursement_rate = reimbursement_rate,
              ps_denial_rate = denial_rate,
              ps_clean_claim_rate = clean_claim_rate,
              ps_avg_days_to_payment = avg_days,
              ps_performance_rating =
                performance_rating reimbursement_rate denial_rate avg_days\<rparr>))))"

definition payer_performance_query :: "database \<Rightarrow> date \<Rightarrow> error + payer_scorecard list" where
  "payer_performance_query db today =
     (let js = concat (map (\<lambda>p.
                 map (\<lambda>c. (p, c))
                   (filter (\<lambda>c. p_payer_id p = c_payer_id c \<and>
                                 date_le (minus_months today 12) (c_submission_date c))
                      (claims db)))
                 (payers db));
          ks = remdups (map fst js);
          groups = map (\<lambda>k. (k, map snd (filter (\<lambda>j. fst j = k) js))) ks
      in e_bind (e_map (\<lambda>g. payer_row db (fst g) (snd g)) groups) (\<lambda>rows.
         Inr (sort_key (\<lambda>r. desc_key (ps_total_payments r))
                (filter (\<lambda>r. ps_total_claims r \<ge> 100) rows))))"

definition payer_performance_analysis ::
  "analyzer \<Rightarrow> (error + payer_scorecard list) \<times> analyzer" where
  "payer_performance_analysis a = execute_query payer_performance_query a"


section \<open>Formatting values in Python\<close>

text \<open>
  \<^verbatim>\<open>read_sql_query\<close> hands a numeric column over as floats. A NULL in it is \<^verbatim>\<open>NaN\<close>
  when the column holds a number somewhere, and \<^verbatim>\<open>None\<close> when it holds none. A format
  specification such as \<^verbatim>\<open>:,.2f\<close> prints a number in fixed point, prints \<^verbatim>\<open>NaN\<close> as
  \<^verbatim>\<open>nan\<close>, and raises \<^verbatim>\<open>TypeError\<close> on \<^verbatim>\<open>None\<close>. Floating point is not modelled:
  the digits are those of the exact decimal value, ties to even.
\<close>

datatype pyval = PNum rat | PNaN | PNone

definition column_value :: "rat option list \<Rightarrow> rat option \<Rightarrow> pyval" where
  "column_value col v =
     (case v of
        Some r \<Rightarrow> PNum r
      | None \<Rightarrow> if non_null col = [] then PNone else PNaN)"

definition nl :: string where
  "nl = [CHR 0x0A]"

definition bullet :: string where
  \<comment> \<open>U+2022, in UTF-8\<close>
  "bullet = [CHR 0xE2, CHR 0x80, CHR 0xA2]"

definition rule70 :: string where
  \<comment> \<open>\<^verbatim>\<open>'=' * 70\<close>\<close>
  "rule70 = replicate 70 (CHR ''='')"

function digits :: "int \<Rightarrow> string" where
  "digits n =
     (if n < 10 then [''0123456789'' ! nat n]
      else digits (n div 10) @ [''0123456789'' ! nat (n mod 10)])"
  by pat_completeness auto
termination
  by (relation "measure nat") auto

declare digits.simps [simp del]

definition pad_zero :: "nat \<Rightarrow> string \<Rightarrow> string" where
  "pad_zero w s = replicate (w - length s) (CHR ''0'') @ s"

fun group3 :: "string \<Rightarrow> string" where
  "group3 ds =
     (if length ds \<le> 3 then ds
      else group3 (take (length ds - 3) ds) @ '','' @ drop (length ds - 3) ds)"

declare group3.simps [simp del]

definition str_int :: "int \<Rightarrow> string" where
  \<comment> \<open>\<^verbatim>\<open>{n}\<close>\<close>
  "str_int n = (if n < 0 then ''-'' @ digits (- n) else digits n)"

definition fmt_int_comma :: "int \<Rightarrow> string" where
  \<comment> \<open>\<^verbatim>\<open>{n:,}\<close>\<close>
  "fmt_int_comma n =
     (if n < 0 then ''-'' @ group3 (digits (- n)) else group3 (digits n))"

definition round_half_even :: "rat \<Rightarrow> int" where
  "round_half_even x =
     (let f = \<lfloor>x\<rfloor>; d = x - of_int f
      in if d < 1 / 2 then f
         else if 1 / 2 < d then f + 1
         else if even f then f else f + 1)"

definition fmt_fixed :: "nat \<Rightarrow> bool \<Rightarrow> rat \<Rightarrow> string" where
  \<comment> \<open>\<^verbatim>\<open>{x:.pf}\<close>, and \<^verbatim>\<open>{x:,.pf}\<close> when \<open>comma\<close>\<close>
  "fmt_fixed p comma x =
     (let n = round_half_even (\<bar>x\<bar> * 10 ^ p);
          ip = digits (n div 10 ^ p);
          fp = pad_zero p (digits (n mod 10 ^ p))
      in (if x < 0 then ''-'' else []) @
         (if comma then group3 ip else ip) @
         (if p = 0 then [] else ''.'' @ fp))"

definition fmt_f :: "nat \<Rightarrow> bool \<Rightarrow> pyval \<Rightarrow> error + string" where
  "fmt_f p comma v =
     (case v of
        PNum x \<Rightarrow> Inr (fmt_fixed p comma x)
      | PNaN \<Rightarrow> Inr ''nan''
      | PNone \<Rightarrow> Inl FormatTypeError)"

definition iso_date :: "date \<Rightarrow> string" where
  \<comment> \<open>\<^verbatim>\<open>%Y-%m-%d\<close>, the form in which \<^verbatim>\<open>main\<close> passes the two bounds of the window\<close>
  "iso_date d =
     pad_zero 4 (str_int (date_year d)) @ ''-'' @ pad_zero 2 (str_int (date_month d)) @ ''-'' @
     pad_zero 2 (str_int (date_day d))"

definition strftime :: "datetime \<Rightarrow> string" where
  \<comment> \<open>\<^verbatim>\<open>strftime('%Y-%m-%d %H:%M:%S')\<close>\<close>
  "strftime t =
     iso_date (dt_date t) @ '' '' @ pad_zero 2 (digits (dt_hour t)) @ '':'' @
     pad_zero 2 (digits (dt_minute t)) @ '':'' @ pad_zero 2 (digits (dt_second t))"

fun e_concat :: "(error + string) list \<Rightarrow> error + string" where
  "e_concat [] = Inr []"
| "e_concat (p # ps) = e_bind p (\<lambda>s. e_bind (e_concat ps) (\<lambda>t. Inr (s @ t)))"

section \<open>generate\_executive\_summary\<close>

text \<open>
  The pieces of an f-string are evaluated from left to right, and the first that raises
  ends the evaluation: \<open>e_concat\<close>.
\<close>

definition get_int :: "metric_snapshot option \<Rightarrow> (metric_snapshot \<Rightarrow> int) \<Rightarrow> int" where
  \<comment> \<open>\<^verbatim>\<open>metrics.get(key, 0)\<close> on a count\<close>
  "get_int metrics f = (case metrics of None \<Rightarrow> 0 | Some m \<Rightarrow> f m)"

definition get_num :: "metric_snapshot option \<Rightarrow> (metric_snapshot \<Rightarrow> rat option) \<Rightarrow> pyval" where
  \<comment> \<open>\<^verbatim>\<open>metrics.get(key, 0)\<close> on a numeric column of the one-row result\<close>
  "get_num metrics f = (case metrics of None \<Rightarrow> PNum 0 | Some m \<Rightarrow> column_value [f m] (f m))"

definition summary_head :: "date \<Rightarrow> date \<Rightarrow> datetime \<Rightarrow> string" where
  "summary_head start_date end_date now =
     nl @ ''REVENUE CYCLE EXECUTIVE SUMMARY'' @ nl @
     ''Period: '' @ iso_date start_date @ '' to '' @ iso_date end_date @ nl @
     ''Generated: '' @ strftime now"

definition summary_kpis :: "metric_snapshot option \<Rightarrow> error + string" where
  "summary_kpis metrics =
     e_concat
      [Inr (nl @ nl @ rule70 @ nl @ ''KEY PERFORMANCE INDICATORS'' @ nl @ rule70 @ nl @ nl @
            ''Volume Metrics:'' @ nl @
            ''  '' @ bullet @ '' Total Claims Submitted: ''),
       Inr (fmt_int_comma (get_int metrics m_total_claims)),
       Inr (nl @ ''  '' @ bullet @ '' Claims Paid: ''),
       Inr (fmt_int_comma (get_int metrics m_paid_claims)),
       Inr (nl @ ''  '' @ bullet @ '' Claims Denied: ''),
       Inr (fmt_int_comma (get_int metrics m_denied_claims)),
       Inr (nl @ nl @ ''Financial Performance:'' @ nl @
            ''  '' @ bullet @ '' Total Charges: $''),
       fmt_f 2 True (get_num metrics m_total_charges),
       Inr (nl @ ''  '' @ bullet @ '' Total Collections: $''),
       fmt_f 2 True (get_num metrics m_total_payments),
       Inr (nl @ ''  '' @ bullet @ '' Net Collection Rate: ''),
       fmt_f 1 False (get_num metrics m_net_collection_rate),
       Inr (''%'' @ nl @ ''  '' @ bullet @ '' Gross Collection Rate: ''),
       fmt_f 1 False (get_num metrics m_gross_collection_rate),
       Inr (''%'' @ nl @ nl @ ''Quality Metrics:'' @ nl @
            ''  '' @ bullet @ '' Clean Claim Rate: ''),
       fmt_f 1 False (get_num metrics m_clean_claim_rate),
       Inr (''%'' @ nl @ ''  '' @ bullet @ '' Denial Rate: ''),
       fmt_f 1 False (get_num metrics m_denial_rate),
       Inr (''%'' @ nl @ ''  '' @ bullet @ '' Average Days to Payment: ''),
       fmt_f 1 False (get_num metrics m_avg_days_to_payment),
       Inr ('' days'' @ nl @ nl @ ''Accounts Receivable:'' @ nl @
            ''  '' @ bullet @ '' Total AR: $''),
       fmt_f 2 True (get_num metrics m_total_ar),
       Inr (nl @ ''  '' @ bullet @ '' AR > 90 Days: $''),
       fmt_f 2 True (get_num metrics m_ar_over_90),
       Inr '' ('',
       fmt_f 1 False (get_num metrics m_ar_over_90_pct),
       Inr (''%)'' @ nl @ ''  '' @ bullet @ '' Days in AR: ''),
       fmt_f 1 False (get_num metrics m_days_in_ar),
       Inr ('' days'' @ nl @ nl @ rule70 @ nl @ ''TOP DENIAL REASONS'' @ nl @ rule70 @ nl @ nl)]"

definition denial_entry :: "denial_pattern list \<Rightarrow> nat \<times> denial_pattern \<Rightarrow> error + string" where
  \<comment> \<open>The body of the first loop; \<open>all\<close> is the whole frame, whose columns decide between
      \<^verbatim>\<open>NaN\<close> and \<^verbatim>\<open>None\<close>.\<close>
  "denial_entry all ir =
     (let row = snd ir
      in e_concat
          [Inr (nl @ str_int (int (fst ir) + 1) @ ''. '' @ dp_denial_category row @ '' - '' @
                dp_denial_reason_description row @ nl),
           Inr (''   Count: '' @ str_int (dp_denial_count row) @ '' | Amount: $''),
           fmt_f 2 True (column_value (map dp_total_denied all) (dp_total_denied row)),
           Inr nl,
           Inr ''   Appeal Success: '',
           fmt_f 1 False
             (column_value (map dp_appeal_success_rate all) (dp_appeal_success_rate row)),
           Inr ''% | Preventable: '',
           fmt_f 1 False (column_value (map dp_preventable_pct all) (dp_preventable_pct row)),
           Inr (''%'' @ nl)])"

definition summary_denials :: "denial_pattern list \<Rightarrow> error + string" where
  \<comment> \<open>\<^verbatim>\<open>for idx, row in denials.head(5).iterrows()\<close>\<close>
  "summary_denials ds = e_concat (map (denial_entry ds) (enumerate 0 (take 5 ds)))"

definition summary_leakage :: "leakage \<Rightarrow> string" where
  "summary_leakage l =
     nl @ rule70 @ nl @ ''REVENUE LEAKAGE OPPORTUNITIES'' @ nl @ rule70 @ nl @ nl @
     ''Unbilled Encounters: '' @ str_int (int (length (unbilled_encounters l))) @
     '' encounters'' @ nl @
     ''  '' @ bullet @ '' Potential Revenue: $'' @
     fmt_fixed 2 True (pd_sum (map ub_expected_charge (unbilled_encounters l))) @ nl @ nl @
     ''Underpayments: '' @ str_int (int (length (underpayments l))) @ '' claims'' @ nl @
     ''  '' @ bullet @ '' Variance Amount: $'' @
     fmt_fixed 2 True (pd_sum (map up_variance (underpayments l))) @ nl @ nl @
     ''Old AR (>90 days): '' @ str_int (int (length (old_ar l))) @ '' claims'' @ nl @
     ''  '' @ bullet @ '' Outstanding Amount: $'' @
     fmt_fixed 2 True (pd_sum (map oa_outstanding (old_ar l))) @ nl @ nl @
     ''TOTAL LEAKAGE: $'' @
     fmt_fixed 2 True
       (pd_sum (map ub_expected_charge (unbilled_encounters l)) +
        pd_sum (map up_variance (underpayments l)) +
        pd_sum (map oa_outstanding (old_ar l))) @ nl @ nl @
     rule70 @ nl @ ''TOP PERFORMING PAYERS'' @ nl @ rule70 @ nl @ nl"

definition payer_entry :: "payer_scorecard list \<Rightarrow> nat \<times> payer_scorecard \<Rightarrow> error + string" where
  "payer_entry all ir =
     (let row = snd ir
      in e_concat
          [Inr (nl @ str_int (int (fst ir) + 1) @ ''. '' @ ps_payer_name row @ '' ('' @
                ps_payer_type row @ '')'' @ nl),
           Inr ''   Collections: $'',
           fmt_f 2 True (column_value (map ps_total_payments all) (ps_total_payments row)),
           Inr ('' | Rating: '' @ ps_performance_rating row @ nl),
           Inr ''   Denial Rate: '',
           fmt_f 1 False (column_value (map ps_denial_rate all) (ps_denial_rate row)),
           Inr ''% | Days to Payment: '',
           fmt_f 0 False
             (column_value (map ps_avg_days_to_payment all) (ps_avg_days_to_payment row)),
           Inr nl])"

definition summary_payers :: "payer_scorecard list \<Rightarrow> error + string" where
  \<comment> \<open>\<^verbatim>\<open>for idx, row in payers.head(5).iterrows()\<close>\<close>
  "summary_payers ps = e_concat (map (payer_entry ps) (enumerate 0 (take 5 ps)))"

definition compose_summary ::
  "date \<Rightarrow> date \<Rightarrow> datetime \<Rightarrow> metric_snapshot option \<Rightarrow> denial_pattern list \<Rightarrow> leakage \<Rightarrow>
   payer_scorecard list \<Rightarrow> error + string" where
  "compose_summary start_date end_date now metrics ds l ps =
     e_bind (summary_kpis metrics) (\<lambda>kpis.
     e_bind (summary_denials ds) (\<lambda>top_denials.
     e_bind (summary_payers ps) (\<lambda>top_payers.
     Inr (summary_head start_date end_date now @ kpis @ top_denials @ summary_leakage l @
          top_payers @ nl @ rule70 @ nl))))"

definition summary_body :: "date \<Rightarrow> date \<Rightarrow> analyzer \<Rightarrow> (error + string) \<times> analyzer" where
  \<comment> \<open>The \<^verbatim>\<open>try\<close> block: an analysis that raises ends it.\<close>
  "summary_body start_date end_date a =
     (case calculate_revenue_metrics start_date end_date a of
        (Inl e, a1) \<Rightarrow> (Inl e, a1)
      | (Inr metrics, a1) \<Rightarrow>
     (case analyze_denial_patterns 6 a1 of
        (Inl e, a2) \<Rightarrow> (Inl e, a2)
      | (Inr ds, a2) \<Rightarrow>
     (case identify_revenue_leakage a2 of
        (Inl e, a3) \<Rightarrow> (Inl e, a3)
      | (Inr l, a3) \<Rightarrow>
     (case payer_performance_analysis a3 of
        (Inl e, a4) \<Rightarrow> (Inl e, a4)
      | (Inr ps, a4) \<Rightarrow>
          (compose_summary start_date end_date (clock a4) metrics ds l ps, a4)))))"

definition generate_executive_summary ::
  "date \<Rightarrow> date \<Rightarrow> analyzer \<Rightarrow> (error + string) \<times> analyzer" where
  \<comment> \<open>\<^verbatim>\<open>connect\<close> is outside the \<^verbatim>\<open>try\<close>; \<^verbatim>\<open>finally\<close> runs \<^verbatim>\<open>disconnect\<close> whether the
      block returns or raises.\<close>
  "generate_executive_summary start_date end_date a =
     (case connect a of
        (Inl e, a0) \<Rightarrow> (Inl e, a0)
      | (Inr u, a0) \<Rightarrow>
          (case summary_body start_date end_date a0 of
             (r, a5) \<Rightarrow> (r, disconnect a5)))"

section \<open>Fixtures\<close>


definition demo_payer :: payer where
  "demo_payer = \<lparr>p_payer_id = 1, p_payer_name = ''Acme Health'', p_payer_type = ''Commercial''\<rparr>"

definition demo_paid :: claim where
  "demo_paid = \<lparr>c_claim_id = 1, c_patient_id = 10, c_payer_id = 1, c_status = ''PAID'',
     c_charge_amount = Some 200, c_allowed_amount = Some 150, c_paid_amount = Some 130,
     c_adjustment_amount = Some 50, c_patient_responsibility = None,
     c_submission_date = Date 2024 1 10, c_payment_date = Some (Date 2024 2 9)\<rparr>"

definition demo_open :: claim where
  "demo_open = \<lparr>c_claim_id = 2, c_patient_id = 11, c_payer_id = 1, c_status = ''SUBMITTED'',
     c_charge_amount = Some 100, c_allowed_amount = None, c_paid_amount = None,
     c_adjustment_amount = None, c_patient_responsibility = None,
     c_submission_date = Date 2023 6 1, c_payment_date = None\<rparr>"

definition demo_encounter :: encounter where
  "demo_encounter = \<lparr>e_encounter_id = 1, e_patient_id = 12, e_provider_id = 3,
     e_encounter_date = Date 2024 3 1, e_expected_charge = Some 300,
     e_documentation_complete = Some False, e_coding_complete = Some False,
     e_charge_entered = Some True, e_claim_generated = Some False\<rparr>"

definition demo_encounter2 :: encounter where
  "demo_encounter2 = \<lparr>e_encounter_id = 2, e_patient_id = 13, e_provider_id = 3,
     e_encounter_date = Date 2024 2 15, e_expected_charge = Some 500,
     e_documentation_complete = None, e_coding_complete = Some True,
     e_charge_entered = None, e_claim_generated = Some False\<rparr>"

definition demo_store :: database where
  "demo_store = \<lparr>claims = [demo_paid, demo_open], denials = [], payers = [demo_payer],
     encounters = [demo_encounter, demo_encounter2]\<rparr>"

definition demo_analyzer :: analyzer where
  "demo_analyzer = \<lparr>store = demo_store, current_date = Date 2024 4 1,
     clock = DateTime (Date 2024 4 1) 9 30 0,
     connect_ok = True, faults = [], connection = NoConnection\<rparr>"

definition demo_connected :: analyzer where
  "demo_connected = demo_analyzer\<lparr>connection := ConnOpen\<rparr>"

definition spec_bottleneck :: "encounter \<Rightarrow> string option" where
  "spec_bottleneck e =
     map_option snd
       (find fst
          [(e_documentation_complete e = Some False, ''Missing Documentation''),
           (e_coding_complete e = Some False, ''Coding Incomplete''),
           (e_charge_entered e = Some False, ''Charges Not Entered''),
           (e_claim_generated e = Some False, ''Claim Not Generated'')])"


definition demo_metrics :: metric_snapshot where
  "demo_metrics =
     \<lparr>m_total_claims = 1, m_paid_claims = 1, m_denied_claims = 0,
      m_total_charges = Some 200, m_total_allowed = Some 150,
      m_total_payments = Some 130, m_total_adjustments = Some 50,
      m_avg_days_to_payment = Some 30, m_total_ar = Some 100,
      m_ar_over_90 = Some 100, m_clean_claim_rate = Some 100,
      m_denial_rate = Some 0, m_net_collection_rate = Some (8667 / 100),
      m_gross_collection_rate = Some 65, m_ar_over_90_pct = Some 100,
      m_days_in_ar = Some (19 / 100)\<rparr>"

definition demo_unbilled :: unbilled_row where
  "demo_unbilled =
     \<lparr>ub_encounter_id = 1, ub_patient_id = 12, ub_provider_id = 3,
      ub_encounter_date = Date 2024 3 1, ub_expected_charge = Some 300,
      ub_days_unbilled = 31, ub_bottleneck = Some ''Missing Documentation''\<rparr>"

definition demo_unbilled2 :: unbilled_row where
  "demo_unbilled2 =
     \<lparr>ub_encounter_id = 2, ub_patient_id = 13, ub_provider_id = 3,
      ub_encounter_date = Date 2024 2 15, ub_expected_charge = Some 500,
      ub_days_unbilled = 46, ub_bottleneck = Some ''Claim Not Generated''\<rparr>"

definition demo_leakage :: leakage where
  "demo_leakage =
     \<lparr>unbilled_encounters = [demo_unbilled2, demo_unbilled],
      underpayments =
        [\<lparr>up_claim_id = 1, up_patient_id = 10, up_payer_name = ''Acme Health'',
          up_submission_date = Date 2024 1 10, up_allowed_amount = Some 150,
          up_patient_responsibility = None, up_paid_amount = Some 130,
          up_expected_payment = Some 150, up_variance = Some 20,
          up_variance_pct = Some (1333 / 100)\<rparr>],
      old_ar =
        [\<lparr>oa_claim_id = 2, oa_patient_id = 11, oa_payer_id = 1,
          oa_submission_date = Date 2023 6 1, oa_outstanding = Some 100,
          oa_days_outstanding = 305, oa_status = ''SUBMITTED''\<rparr>]\<rparr>"

definition empty_analyzer :: analyzer where
  "empty_analyzer =
     \<lparr>store = \<lparr>claims = [], denials = [], payers = [], encounters = []\<rparr>,
      current_date = Date 2024 4 1, clock = DateTime (Date 2024 4 1) 9 30 0,
      connect_ok = True, faults = [], connection = ConnOpen\<rparr>"

definition unpaid_claim :: claim where
  "unpaid_claim =
     \<lparr>c_claim_id = 1, c_patient_id = 1, c_payer_id = 1, c_status = ''SUBMITTED'',
      c_charge_amount = Some 100, c_allowed_amount = Some 0, c_paid_amount = Some 0,
      c_adjustment_amount = None, c_patient_responsibility = None,
      c_submission_date = Date 2024 2 1, c_payment_date = None\<rparr>"

definition unpaid_analyzer :: analyzer where
  "unpaid_analyzer =
     \<lparr>store = \<lparr>claims = [unpaid_claim], denials = [], payers = [], encounters = []\<rparr>,
      current_date = Date 2024 4 1, clock = DateTime (Date 2024 4 1) 9 30 0,
      connect_ok = True, faults = [], connection = ConnOpen\<rparr>"

definition overpaid_claim :: claim where
  "overpaid_claim =
     \<lparr>c_claim_id = 1, c_patient_id = 1, c_payer_id = 1, c_status = ''PAID'',
      c_charge_amount = Some 100, c_allowed_amount = Some 100, c_paid_amount = Some 150,
      c_adjustment_amount = None, c_patient_responsibility = None,
      c_submission_date = Date 2024 2 1, c_payment_date = Some (Date 2024 2 20)\<rparr>"

definition overpaid_analyzer :: analyzer where
  "overpaid_analyzer =
     \<lparr>store = \<lparr>claims = [overpaid_claim], denials = [], payers = [], encounters = []\<rparr>,
      current_date = Date 2024 4 1, clock = DateTime (Date 2024 4 1) 9 30 0,
      connect_ok = True, faults = [], connection = ConnOpen\<rparr>"

definition in_pct_range :: "rat option \<Rightarrow> bool" where
  "in_pct_range v = (case v of None \<Rightarrow> False | Some r \<Rightarrow> 0 \<le> r \<and> r \<le> 100)"

definition part_of :: "rat option \<Rightarrow> rat option \<Rightarrow> bool" where
  "part_of n d = (case (n, d) of (Some x, Some y) \<Rightarrow> 0 \<le> x \<and> x \<le> y \<and> 0 < y | _ \<Rightarrow> False)"

definition faulty_analyzer :: analyzer where
  "faulty_analyzer = demo_analyzer\<lparr>faults := [False, True]\<rparr>"


definition rating_at_least :: "rat option \<Rightarrow> rat \<Rightarrow> bool" where
  "rating_at_least v c = (case v of None \<Rightarrow> False | Some x \<Rightarrow> c \<le> x)"

definition rating_at_most :: "rat option \<Rightarrow> rat \<Rightarrow> bool" where
  "rating_at_most v c = (case v of None \<Rightarrow> False | Some x \<Rightarrow> x \<le> c)"

definition rating_rules :: "rat option \<Rightarrow> rat option \<Rightarrow> rat option \<Rightarrow> string" where
  \<comment> \<open>The ordered rules as the specification words them; a comparison with a missing
      value does not hold.\<close>
  "rating_rules reimbursement_rate denial_rate avg_days_to_payment =
     (if rating_at_least reimbursement_rate 95 \<and> rating_at_most denial_rate 5 \<and>
         rating_at_most avg_days_to_payment 30 then ''Excellent''
      else if rating_at_least reimbursement_rate 85 \<and> rating_at_most denial_rate 10
      then ''Good''
      else if rating_at_least reimbursement_rate 75 \<and> rating_at_most denial_rate 15
      then ''Fair''
      else ''Poor'')"

definition busy_claim :: "int \<Rightarrow> claim" where
  "busy_claim i =
     \<lparr>c_claim_id = i, c_patient_id = i, c_payer_id = 1,
      c_status = (if i \<le> 4 then ''DENIED'' else ''PAID''),
      c_charge_amount = Some 120, c_allowed_amount = Some 100,
      c_paid_amount = Some (if i \<le> 4 then 0 else 100),
      c_adjustment_amount = None, c_patient_responsibility = None,
      c_submission_date = Date 2024 1 10,
      c_payment_date = (if i \<le> 4 then None else Some (Date 2024 1 30))\<rparr>"

definition busy_analyzer :: analyzer where
  "busy_analyzer =
     \<lparr>store = \<lparr>claims = map busy_claim [1..100], denials = [], payers = [demo_payer],
               encounters = []\<rparr>,
      current_date = Date 2024 4 1, clock = DateTime (Date 2024 4 1) 9 30 0,
      connect_ok = True, faults = [], connection = ConnOpen\<rparr>"

definition busy_scorecard :: payer_scorecard where
  "busy_scorecard =
     \<lparr>ps_payer_name = ''Acme Health'', ps_payer_type = ''Commercial'',
      ps_total_claims = 100, ps_total_payments = Some 9600,
      ps_reimbursement_rate = Some 96, ps_denial_rate = Some 4,
      ps_clean_claim_rate = Some 96, ps_avg_days_to_payment = Some 20,
      ps_performance_rating = ''Excellent''\<rparr>"

definition keys_unique :: "database \<Rightarrow> bool" where
  \<comment> \<open>The primary keys of the three joined tables\<close>
  "keys_unique db \<longleftrightarrow>
     distinct (map d_denial_id (denials db)) \<and> distinct (map c_claim_id (claims db)) \<and>
     distinct (map p_payer_id (payers db))"

definition not_below :: "rat option \<Rightarrow> rat option \<Rightarrow> bool" where
  \<comment> \<open>The earlier total is not below the later one; a group without any amount has no
      total and comes first.\<close>
  "not_below x y =
     (case (x, y) of
        (None, _) \<Rightarrow> True
      | (Some u, None) \<Rightarrow> False
      | (Some u, Some v) \<Rightarrow> v \<le> u)"

definition denied_claim :: "int \<Rightarrow> claim" where
  "denied_claim i =
     \<lparr>c_claim_id = i, c_patient_id = i, c_payer_id = 1, c_status = ''DENIED'',
      c_charge_amount = Some 400, c_allowed_amount = None, c_paid_amount = None,
      c_adjustment_amount = None, c_patient_responsibility = None,
      c_submission_date = Date 2024 1 10, c_payment_date = None\<rparr>"

definition demo_denial :: "int \<Rightarrow> denial" where
  "demo_denial i =
     \<lparr>d_denial_id = i, d_claim_id = i,
      d_denial_category = (if i \<le> 5 then ''Eligibility'' else if i \<le> 11 then ''Coding''
                           else ''Authorization''),
      d_denial_reason_code = (if i \<le> 5 then ''E01'' else if i \<le> 11 then ''C07'' else ''A02''),
      d_denial_reason_description =
        (if i \<le> 5 then ''Coverage terminated'' else if i \<le> 11 then ''Invalid code''
         else ''No prior authorization''),
      d_denied_amount = Some (if i \<le> 5 then 100 else 300),
      d_work_status = (if i \<le> 2 then Some ''RESOLVED'' else None),
      d_resolution_type = (if i = 1 then Some ''APPEALED_WON''
                           else if i = 2 then Some ''APPEALED_LOST'' else None),
      d_recovered_amount = (if i = 1 then Some 80 else None),
      d_preventable = Some (i \<le> 5),
      d_denial_date = Date 2024 2 1\<rparr>"

definition denial_analyzer :: analyzer where
  "denial_analyzer =
     \<lparr>store = \<lparr>claims = map denied_claim [1..13], denials = map demo_denial [1..13],
               payers = [demo_payer], encounters = []\<rparr>,
      current_date = Date 2024 4 1, clock = DateTime (Date 2024 4 1) 9 30 0,
      connect_ok = True, faults = [], connection = ConnOpen\<rparr>"

lemma e_bind_Inr: "e_bind r f = Inr v \<Longrightarrow> \<exists>x. r = Inr x \<and> f x = Inr v"
  by (cases r) (simp_all add: e_bind_def)

lemma e_bind_simps [simp]: "e_bind (Inl e) f = Inl e" "e_bind (Inr x) f = f x"
  by (simp_all add: e_bind_def)

lemma execute_query_Inr:
  assumes "execute_query q a = (Inr rows, a')"
  shows "q (store a) (current_date a) = Inr rows"
    and "store a' = store a" and "current_date a' = current_date a"
  using assms by (auto simp: execute_query_def split: if_splits list.splits)

lemma execute_query_connection: "connection (snd (execute_query q a)) = connection a"
  by (auto simp: execute_query_def split: list.splits)

lemma set_e_map:
  "e_map f xs = Inr ys \<Longrightarrow> y \<in> set ys \<Longrightarrow> \<exists>x \<in> set xs. f x = Inr y"
proof (induction xs arbitrary: ys)
  case Nil
  then show ?case by simp
next
  case (Cons x xs)
  from Cons.prems(1) obtain z zs where z: "f x = Inr z" and zs: "e_map f xs = Inr zs"
    and ys: "ys = z # zs"
    by (auto dest!: e_bind_Inr)
  show ?case
  proof (cases "y = z")
    case True
    with z show ?thesis by auto
  next
    case False
    with ys Cons.prems(2) have "y \<in> set zs" by simp
    with Cons.IH [OF zs] show ?thesis by auto
  qed
qed

lemma is_true_sql_and [simp]: "is_true (sql_and a b) \<longleftrightarrow> is_true a \<and> is_true b"
  by (cases "(a, b)" rule: sql_and.cases) (auto simp: is_true_def)

lemma is_true_sql_not [simp]: "is_true (sql_not a) \<longleftrightarrow> a = Some False"
  by (cases a) (auto simp: is_true_def)

lemma is_true_Some [simp]: "is_true (Some b) \<longleftrightarrow> b"
  by (simp add: is_true_def)

lemma leakage_unbilled:
  assumes "identify_revenue_leakage a = (Inr l, a')"
  shows "unbilled_encounters l =
           sort_key (\<lambda>r. desc_key (ub_expected_charge r))
             (map (unbilled_select (current_date a))
                (filter (unbilled_where (current_date a)) (encounters (store a))))"
proof -
  from assms obtain ub a1 where "execute_query unbilled_query a = (Inr ub, a1)"
    and "unbilled_encounters l = ub"
    by (auto simp: identify_revenue_leakage_def split: prod.splits sum.splits)
  then show ?thesis
    by (auto dest!: execute_query_Inr(1) simp: unbilled_query_def)
qed

lemma unbilled_row_source:
  assumes "identify_revenue_leakage a = (Inr l, a')" and "r \<in> set (unbilled_encounters l)"
  shows "\<exists>e \<in> set (encounters (store a)).
           r = unbilled_select (current_date a) e \<and> e_claim_generated e = Some False"
  using assms(2) unfolding leakage_unbilled [OF assms(1)]
  by (auto simp: unbilled_where_def)

lemma bottleneck_spec: "bottleneck e = spec_bottleneck e"
  by (simp add: bottleneck_def spec_bottleneck_def)

text \<open>
  Claim C6. Every unbilled-encounter row that \<^verbatim>\<open>identify_revenue_leakage\<close> returns comes
  from an encounter of the store, and its bottleneck label is the first match, in the order
  documentation, coding, charge entry, claim generation, among the flags that are false.
  An encounter whose documentation and coding are both incomplete is labelled
  \<^verbatim>\<open>Missing Documentation\<close>, not \<^verbatim>\<open>Coding Incomplete\<close>.
\<close>

theorem C6_bottleneck_first_match:
  assumes "identify_revenue_leakage a = (Inr l, a')" and "r \<in> set (unbilled_encounters l)"
  shows "\<exists>e \<in> set (encounters (store a)).
           ub_encounter_id r = e_encounter_id e \<and>
           ub_bottleneck r = spec_bottleneck e \<and>
           (e_documentation_complete e = Some False \<and> e_coding_complete e = Some False \<longrightarrow>
              ub_bottleneck r = Some ''Missing Documentation'' \<and>
              ub_bottleneck r \<noteq> Some ''Coding Incomplete'')"
proof -
  from unbilled_row_source [OF assms] obtain e where e: "e \<in> set (encounters (store a))"
    and r: "r = unbilled_select (current_date a) e"
    by blast
  have "ub_bottleneck r = spec_bottleneck e"
    using r by (simp add: unbilled_select_def bottleneck_spec)
  moreover have "ub_encounter_id r = e_encounter_id e"
    using r by (simp add: unbilled_select_def)
  moreover have "e_documentation_complete e = Some False \<Longrightarrow>
      ub_bottleneck r = Some ''Missing Documentation''"
    using r by (simp add: unbilled_select_def bottleneck_def)
  ultimately show ?thesis using e by auto
qed

text \<open>
  Claim C10. Every unbilled-encounter row that \<^verbatim>\<open>identify_revenue_leakage\<close> returns
  carries a label: the \<^verbatim>\<open>WHERE\<close> clause keeps only encounters whose claim is not
  generated, so the fourth branch of the \<^verbatim>\<open>CASE\<close> matches when no earlier one does.
\<close>

theorem C10_bottleneck_never_null:
  assumes "identify_revenue_leakage a = (Inr l, a')" and "r \<in> set (unbilled_encounters l)"
  shows "ub_bottleneck r \<noteq> None \<and>
         ub_bottleneck r \<in> {Some ''Missing Documentation'', Some ''Coding Incomplete'',
           Some ''Charges Not Entered'', Some ''Claim Not Generated''}"
proof -
  from unbilled_row_source [OF assms] obtain e where
    r: "r = unbilled_select (current_date a) e" and g: "e_claim_generated e = Some False"
    by blast
  show ?thesis using g unfolding r by (simp add: unbilled_select_def bottleneck_def)
qed

lemma pd_sum_coalesce: "pd_sum (map f xs) = (\<Sum>r\<leftarrow>xs. coalesce (f r) 0)"
proof (induction xs)
  case Nil
  then show ?case by (simp add: pd_sum_def)
next
  case (Cons x xs)
  then show ?case by (cases "f x") (simp_all add: pd_sum_def coalesce_def)
qed

text \<open>
  Claim C3 (the code differs). With no claim in the window, the query still returns its one
  row of aggregates, so \<^verbatim>\<open>result.empty\<close> is false and the method returns a dictionary of
  zero counts and NULL sums and rates, not the empty dictionary.
\<close>

theorem C3_no_claims_in_window:
  "calculate_revenue_metrics (Date 2024 1 1) (Date 2024 3 31) empty_analyzer =
     (Inr (Some \<lparr>m_total_claims = 0, m_paid_claims = 0, m_denied_claims = 0,
                  m_total_charges = None, m_total_allowed = None, m_total_payments = None,
                  m_total_adjustments = None, m_avg_days_to_payment = None,
                  m_total_ar = None, m_ar_over_90 = None, m_clean_claim_rate = None,
                  m_denial_rate = None, m_net_collection_rate = None,
                  m_gross_collection_rate = None, m_ar_over_90_pct = None,
                  m_days_in_ar = None\<rparr>), empty_analyzer)"
  by code_simp

text \<open>
  Claim C8 (the code differs). The divisor of \<^verbatim>\<open>days_in_ar\<close> has no \<^verbatim>\<open>NULLIF\<close>: with
  one open claim in the window on which nothing is allowed and nothing is paid, the sum of
  the allowed amounts is zero and the query raises \<^verbatim>\<open>division by zero\<close>, where the claim
  asks for a NULL rate.
\<close>

theorem C8_zero_payments_fault:
  "sql_sum (map c_allowed_amount (claims (store unpaid_analyzer))) = Some 0 \<and>
   calculate_revenue_metrics (Date 2024 1 1) (Date 2024 3 31) unpaid_analyzer =
     (Inl DivisionByZero, unpaid_analyzer)"
  by code_simp

theorem C6_witness:
  "identify_revenue_leakage demo_connected = (Inr demo_leakage, demo_connected) \<and>
   demo_unbilled \<in> set (unbilled_encounters demo_leakage) \<and>
   e_documentation_complete demo_encounter = Some False \<and>
   e_coding_complete demo_encounter = Some False \<and>
   ub_bottleneck demo_unbilled = Some ''Missing Documentation''"
proof -
  have run: "identify_revenue_leakage demo_connected = (Inr demo_leakage, demo_connected)"
    by code_simp
  have row: "demo_unbilled \<in> set (unbilled_encounters demo_leakage)"
    by (simp add: demo_leakage_def)
  from C6_bottleneck_first_match [OF run row] obtain e
    where "e \<in> set (encounters (store demo_connected))"
      and "ub_encounter_id demo_unbilled = e_encounter_id e"
      and imp: "e_documentation_complete e = Some False \<and> e_coding_complete e = Some False \<longrightarrow>
              ub_bottleneck demo_unbilled = Some ''Missing Documentation'' \<and>
              ub_bottleneck demo_unbilled \<noteq> Some ''Coding Incomplete''"
    by blast
  then have "e = demo_encounter"
    by (auto simp: demo_connected_def demo_analyzer_def demo_store_def demo_unbilled_def
        demo_encounter_def demo_encounter2_def)
  with imp run row show ?thesis
    by (simp add: demo_encounter_def)
qed

theorem C10_witness:
  "identify_revenue_leakage demo_connected = (Inr demo_leakage, demo_connected) \<and>
   demo_unbilled2 \<in> set (unbilled_encounters demo_leakage) \<and>
   ub_bottleneck demo_unbilled2 \<noteq> None \<and>
   ub_bottleneck demo_unbilled2 \<in> {Some ''Missing Documentation'', Some ''Coding Incomplete'',
           Some ''Charges Not Entered'', Some ''Claim Not Generated''}"
proof -
  have run: "identify_revenue_leakage demo_connected = (Inr demo_leakage, demo_connected)"
    by code_simp
  have row: "demo_unbilled2 \<in> set (unbilled_encounters demo_leakage)"
    by (simp add: demo_leakage_def)
  from C10_bottleneck_never_null [OF run row] run row show ?thesis
    by blast
qed


lemma calculate_connection:
  "connection (snd (calculate_revenue_metrics s e a)) = connection a"
  using execute_query_connection [of "revenue_metrics_query s e" a]
  by (auto simp: calculate_revenue_metrics_def split: prod.splits sum.splits list.splits)

lemma analyze_connection:
  "connection (snd (analyze_denial_patterns n a)) = connection a"
  by (simp add: analyze_denial_patterns_def execute_query_connection)

lemma payer_connection:
  "connection (snd (payer_performance_analysis a)) = connection a"
  by (simp add: payer_performance_analysis_def execute_query_connection)

lemma leakage_connection:
  "connection (snd (identify_revenue_leakage a)) = connection a"
proof -
  obtain r1 a1 where q1: "execute_query unbilled_query a = (r1, a1)" by force
  obtain r2 a2 where q2: "execute_query underpayment_query a1 = (r2, a2)" by force
  obtain r3 a3 where q3: "execute_query old_ar_query a2 = (r3, a3)" by force
  have c1: "connection a1 = connection a"
    using execute_query_connection [of unbilled_query a] q1 by simp
  have c2: "connection a2 = connection a1"
    using execute_query_connection [of underpayment_query a1] q2 by simp
  have c3: "connection a3 = connection a2"
    using execute_query_connection [of old_ar_query a2] q3 by simp
  show ?thesis
    using q1 q2 q3 c1 c2 c3
    by (auto simp: identify_revenue_leakage_def split: sum.splits)
qed

lemma summary_body_connection:
  "connection (snd (summary_body s e a)) = connection a"
proof -
  obtain r1 a1 where q1: "calculate_revenue_metrics s e a = (r1, a1)" by force
  obtain r2 a2 where q2: "analyze_denial_patterns 6 a1 = (r2, a2)" by force
  obtain r3 a3 where q3: "identify_revenue_leakage a2 = (r3, a3)" by force
  obtain r4 a4 where q4: "payer_performance_analysis a3 = (r4, a4)" by force
  have c1: "connection a1 = connection a"
    using calculate_connection [of s e a] q1 by simp
  have c2: "connection a2 = connection a1"
    using analyze_connection [of 6 a1] q2 by simp
  have c3: "connection a3 = connection a2"
    using leakage_connection [of a2] q3 by simp
  have c4: "connection a4 = connection a3"
    using payer_connection [of a3] q4 by simp
  show ?thesis
    using q1 q2 q3 q4 c1 c2 c3 c4
    by (auto simp: summary_body_def split: sum.splits)
qed

text \<open>
  Claim C9. After a successful \<^verbatim>\<open>connect\<close>, the connection is closed when
  \<^verbatim>\<open>generate_executive_summary\<close> returns or raises, whichever analysis or formatting step
  failed: no method resets the handle, and \<^verbatim>\<open>finally\<close> runs \<^verbatim>\<open>disconnect\<close>.
\<close>

theorem C9_connection_released:
  assumes "fst (connect a) = Inr ()"
  shows "connection (snd (generate_executive_summary s e a)) = ConnClosed"
proof -
  from assms have ok: "connect a = (Inr (), a\<lparr>connection := ConnOpen\<rparr>)"
    by (simp add: connect_def split: if_splits)
  obtain r a5 where body: "summary_body s e (a\<lparr>connection := ConnOpen\<rparr>) = (r, a5)"
    by force
  have "connection a5 = ConnOpen"
    using summary_body_connection [of s e "a\<lparr>connection := ConnOpen\<rparr>"] body by simp
  then have "connection (disconnect a5) = ConnClosed"
    by (simp add: disconnect_def)
  with ok body show ?thesis
    by (simp add: generate_executive_summary_def)
qed

theorem C9_witness:
  "fst (connect faulty_analyzer) = Inr () \<and>
   fst (generate_executive_summary (Date 2024 1 1) (Date 2024 3 31) faulty_analyzer) =
     Inl QueryFailed \<and>
   connection (snd (generate_executive_summary (Date 2024 1 1) (Date 2024 3 31)
     faulty_analyzer)) = ConnClosed"
proof -
  have ok: "fst (connect faulty_analyzer) = Inr ()"
    by code_simp
  have "fst (generate_executive_summary (Date 2024 1 1) (Date 2024 3 31) faulty_analyzer) =
     Inl QueryFailed"
    by code_simp
  with ok C9_connection_released [OF ok] show ?thesis
    by simp
qed

text \<open>
  Claim C7. The total that \<^verbatim>\<open>identify_revenue_leakage\<close> computes is the sum of the
  expected charges of the unbilled encounters, the signed variances of the underpayments and
  the outstanding amounts of the aged claims (a missing value counts as 0), and the report
  prints this figure after \<^verbatim>\<open>TOTAL LEAKAGE: $\<close>.
\<close>

theorem C7_total_leakage:
  assumes "identify_revenue_leakage a = (Inr l, a')"
  shows "total_leakage l =
           (\<Sum>r\<leftarrow>unbilled_encounters l. coalesce (ub_expected_charge r) 0) +
           (\<Sum>r\<leftarrow>underpayments l. coalesce (up_variance r) 0) +
           (\<Sum>r\<leftarrow>old_ar l. coalesce (oa_outstanding r) 0) \<and>
         (\<exists>before after. summary_leakage l =
            before @ ''TOTAL LEAKAGE: $'' @ fmt_fixed 2 True (total_leakage l) @ after)"
proof -
  have "total_leakage l =
           (\<Sum>r\<leftarrow>unbilled_encounters l. coalesce (ub_expected_charge r) 0) +
           (\<Sum>r\<leftarrow>underpayments l. coalesce (up_variance r) 0) +
           (\<Sum>r\<leftarrow>old_ar l. coalesce (oa_outstanding r) 0)"
    by (simp add: total_leakage_def pd_sum_coalesce)
  moreover have "\<exists>before after. summary_leakage l =
            before @ ''TOTAL LEAKAGE: $'' @ fmt_fixed 2 True (total_leakage l) @ after"
    unfolding summary_leakage_def total_leakage_def
    by (metis append.assoc)
  ultimately show ?thesis by simp
qed

theorem C7_witness:
  "identify_revenue_leakage demo_connected = (Inr demo_leakage, demo_connected) \<and>
   total_leakage demo_leakage = 500 + 300 + 20 + 100 \<and>
   fmt_fixed 2 True (total_leakage demo_leakage) = ''920.00''"
proof -
  have run: "identify_revenue_leakage demo_connected = (Inr demo_leakage, demo_connected)"
    by code_simp
  have sums: "(\<Sum>r\<leftarrow>unbilled_encounters demo_leakage. coalesce (ub_expected_charge r) 0) +
           (\<Sum>r\<leftarrow>underpayments demo_leakage. coalesce (up_variance r) 0) +
           (\<Sum>r\<leftarrow>old_ar demo_leakage. coalesce (oa_outstanding r) 0) = 500 + 300 + 20 + 100"
    by code_simp
  have total: "total_leakage demo_leakage = 500 + 300 + 20 + 100"
    using C7_total_leakage [OF run] sums by simp
  have "fmt_fixed 2 True (500 + 300 + 20 + 100) = ''920.00''"
    by code_simp
  with run total show ?thesis by simp
qed


end
